theory Spec2Isabelle
  imports Complex_Main "HOL-Library.Log_Nat"
begin

section \<open>float64 values\<close>

text \<open>
  Amounts and totals are Go \<open>float64\<close>. A value is a finite real, an infinity or NaN.
  Arithmetic on finite values computes the exact result and then rounds it with a rounding
  function \<open>r\<close>, a parameter of every operation: \<open>round64\<close> below is round-to-nearest-even
  to a 53-bit significand. Signed zeros, subnormals and overflow of a finite result to an
  infinity are not modelled.
\<close>

datatype float64 = Fin real | PInf | NInf | NaN

type_synonym rounding = "real \<Rightarrow> real"

definition ilog2 :: "real \<Rightarrow> int" where
  \<comment> \<open>the binary exponent of \<open>y > 0\<close>: \<open>2 ^ e \<le> y < 2 ^ (e + 1)\<close>\<close>
  "ilog2 y = (if 1 \<le> y then int (floorlog 2 (nat \<lfloor>y\<rfloor>)) - 1
              else - int (floorlog 2 (nat (\<lceil>1 / y\<rceil> - 1))))"

definition pow2 :: "int \<Rightarrow> real" where
  "pow2 e = (if 0 \<le> e then 2 ^ nat e else 1 / 2 ^ nat (- e))"

definition round_half_even :: "real \<Rightarrow> int" where
  "round_half_even q =
     (let f = \<lfloor>q\<rfloor>; d = q - of_int f
      in if d < 1 / 2 then f else if 1 / 2 < d then f + 1 else if even f then f else f + 1)"

definition round64 :: rounding where
  "round64 x = (if x = 0 then 0
                else let u = pow2 (ilog2 \<bar>x\<bar> - 52)
                     in sgn x * (u * of_int (round_half_even (\<bar>x\<bar> / u))))"

text \<open>
  A rounding is sign-symmetric when it commutes with negation and never turns a magnitude
  negative, as every IEEE rounding to nearest does.
\<close>

definition signSymmetric :: "rounding \<Rightarrow> bool" where
  "signSymmetric r = ((\<forall>x. r (- x) = - r x) \<and> (\<forall>x. 0 \<le> r \<bar>x\<bar>))"

fun fneg :: "float64 \<Rightarrow> float64" where
  "fneg (Fin x) = Fin (- x)"
| "fneg PInf = NInf"
| "fneg NInf = PInf"
| "fneg NaN = NaN"

fun fabs :: "float64 \<Rightarrow> float64" where
  "fabs (Fin x) = Fin \<bar>x\<bar>"
| "fabs PInf = PInf"
| "fabs NInf = PInf"
| "fabs NaN = NaN"

fun fadd :: "rounding \<Rightarrow> float64 \<Rightarrow> float64 \<Rightarrow> float64" where
  "fadd r (Fin x) (Fin y) = Fin (r (x + y))"
| "fadd r (Fin x) PInf = PInf"
| "fadd r (Fin x) NInf = NInf"
| "fadd r (Fin x) NaN = NaN"
| "fadd r PInf (Fin y) = PInf"
| "fadd r PInf PInf = PInf"
| "fadd r PInf NInf = NaN"
| "fadd r PInf NaN = NaN"
| "fadd r NInf (Fin y) = NInf"
| "fadd r NInf PInf = NaN"
| "fadd r NInf NInf = NInf"
| "fadd r NInf NaN = NaN"
| "fadd r NaN b = NaN"

definition fsub :: "rounding \<Rightarrow> float64 \<Rightarrow> float64 \<Rightarrow> float64" where
  "fsub r a b = fadd r a (fneg b)"

fun fmul :: "rounding \<Rightarrow> float64 \<Rightarrow> float64 \<Rightarrow> float64" where
  "fmul r (Fin x) (Fin y) = Fin (r (x * y))"
| "fmul r (Fin x) PInf = (if x = 0 then NaN else if 0 < x then PInf else NInf)"
| "fmul r (Fin x) NInf = (if x = 0 then NaN else if 0 < x then NInf else PInf)"
| "fmul r (Fin x) NaN = NaN"
| "fmul r PInf (Fin y) = (if y = 0 then NaN else if 0 < y then PInf else NInf)"
| "fmul r PInf PInf = PInf"
| "fmul r PInf NInf = NInf"
| "fmul r PInf NaN = NaN"
| "fmul r NInf (Fin y) = (if y = 0 then NaN else if 0 < y then NInf else PInf)"
| "fmul r NInf PInf = NInf"
| "fmul r NInf NInf = PInf"
| "fmul r NInf NaN = NaN"
| "fmul r NaN b = NaN"

text \<open>
  Division of floats never panics in Go: a finite nonzero value divided by zero is an
  infinity, and \<open>0 / 0\<close> is NaN.
\<close>

fun fdiv :: "rounding \<Rightarrow> float64 \<Rightarrow> float64 \<Rightarrow> float64" where
  "fdiv r (Fin x) (Fin y) =
     (if y = 0 then (if x = 0 then NaN else if 0 < x then PInf else NInf)
      else Fin (r (x / y)))"
| "fdiv r (Fin x) PInf = Fin 0"
| "fdiv r (Fin x) NInf = Fin 0"
| "fdiv r (Fin x) NaN = NaN"
| "fdiv r PInf (Fin y) = (if 0 \<le> y then PInf else NInf)"
| "fdiv r PInf PInf = NaN"
| "fdiv r PInf NInf = NaN"
| "fdiv r PInf NaN = NaN"
| "fdiv r NInf (Fin y) = (if 0 \<le> y then NInf else PInf)"
| "fdiv r NInf PInf = NaN"
| "fdiv r NInf NInf = NaN"
| "fdiv r NInf NaN = NaN"
| "fdiv r NaN b = NaN"

text \<open>Comparisons: every ordered comparison with NaN is false.\<close>

fun flt :: "float64 \<Rightarrow> float64 \<Rightarrow> bool" where
  "flt (Fin x) (Fin y) = (x < y)"
| "flt (Fin x) PInf = True"
| "flt NInf (Fin y) = True"
| "flt NInf PInf = True"
| "flt a b = False"

fun feq :: "float64 \<Rightarrow> float64 \<Rightarrow> bool" where
  "feq (Fin x) (Fin y) = (x = y)"
| "feq PInf PInf = True"
| "feq NInf NInf = True"
| "feq a b = False"

definition fle :: "float64 \<Rightarrow> float64 \<Rightarrow> bool" where
  "fle a b = (flt a b \<or> feq a b)"



section \<open>Data model (internal/models)\<close>

record Transaction =
  ID :: string
  Amount :: float64
  Author :: string
  Category :: string
  ButtonMessageID :: string
  ConfirmationMessageID :: string
  CreatedAt :: int

type_synonym totals = "string \<rightharpoonup> float64"

text \<open>
  \<open>MonthlyArchive\<close>: the field \<open>ID\<close> of the Go struct is \<open>ArchiveID\<close> here, since a record
  field name cannot be shared with \<open>Transaction\<close>.
\<close>

record MonthlyArchive =
  ArchiveID :: string
  Year :: int
  Month :: int
  MonthName :: string
  TotalSpent :: float64
  TotalTransactions :: nat
  Balance :: float64
  UserTotals :: totals
  CategoryTotals :: totals
  Transactions :: "Transaction list"
  AvgTransaction :: float64
  HighestTransaction :: float64
  LowestTransaction :: float64
  DaysWithSpending :: nat
  ArchivedAt :: int

section \<open>The store (database package)\<close>

text \<open>
  The two MongoDB collections are lists of documents. Every store call can fail; whether a
  call fails is an input of the model.
\<close>

record DB =
  collection :: "Transaction list"
  archiveCollection :: "MonthlyArchive list"

datatype err =
    FetchFailed            \<comment> \<open>failed to fetch transactions\<close>
  | FindFailed             \<comment> \<open>failed to find transaction\<close>
  | InsertFailed           \<comment> \<open>failed to insert transaction\<close>
  | UpdateFailed           \<comment> \<open>failed to update transaction\<close>
  | DeleteFailed           \<comment> \<open>failed to delete all transactions\<close>
  | NoTransactions         \<comment> \<open>no transactions to archive\<close>
  | ArchiveFetchFailed     \<comment> \<open>failed to get transactions for archive\<close>
  | ArchiveTotalsFailed    \<comment> \<open>failed to calculate totals for archive\<close>
  | ArchiveSaveFailed      \<comment> \<open>failed to save monthly archive\<close>
  | InvalidFormat          \<comment> \<open>invalid amount format\<close>
  | NotPositive            \<comment> \<open>amount must be positive\<close>
  | DeleteOneFailed        \<comment> \<open>failed to delete transaction\<close>
  | ArchivesFetchFailed    \<comment> \<open>failed to fetch recent archives\<close>

definition GetAllTransactions :: "bool \<Rightarrow> DB \<Rightarrow> err + Transaction list" where
  "GetAllTransactions fails db = (if fails then Inl FetchFailed else Inr (collection db))"

section \<open>CalculateTotals\<close>

definition lookup0 :: "totals \<Rightarrow> string \<Rightarrow> float64" where
  \<comment> \<open>reading a Go map: a missing key reads as 0\<close>
  "lookup0 m k = (case m k of None \<Rightarrow> Fin 0 | Some v \<Rightarrow> v)"

definition addTo :: "rounding \<Rightarrow> totals \<Rightarrow> string \<Rightarrow> float64 \<Rightarrow> totals" where
  \<comment> \<open>\<open>m[k] += v\<close>\<close>
  "addTo r m k v = m(k \<mapsto> fadd r (lookup0 m k) v)"

fun totalsLoop :: "rounding \<Rightarrow> Transaction list \<Rightarrow> totals \<times> totals \<Rightarrow> totals \<times> totals" where
  "totalsLoop r [] acc = acc"
| "totalsLoop r (tx # txs) (userTotals, categoryTotals) =
     (let absHalf = fabs (fdiv r (Amount tx) (Fin 2));
          userTotals' = addTo r userTotals (Author tx) absHalf;
          categoryTotals' =
            (if Category tx \<noteq> [] then addTo r categoryTotals (Category tx) (fabs (Amount tx))
             else categoryTotals)
      in totalsLoop r txs (userTotals', categoryTotals'))"

text \<open>
  \<open>for user := range userTotals\<close> yields every key once, in an order that Go leaves
  unspecified (and randomises). The order is an input \<open>users\<close> of the model;
  \<open>rangeKeys m users\<close> says that \<open>users\<close> is a possible iteration order of \<open>m\<close>.
\<close>

definition rangeKeys :: "totals \<Rightarrow> string list \<Rightarrow> bool" where
  "rangeKeys m users = (distinct users \<and> set users = dom m)"

definition balanceOf :: "rounding \<Rightarrow> totals \<Rightarrow> string list \<Rightarrow> float64" where
  "balanceOf r userTotals users =
     (if 2 \<le> length users
      then fsub r (lookup0 userTotals (users ! 0)) (lookup0 userTotals (users ! 1))
      else Fin 0)"

definition CalculateTotals ::
    "rounding \<Rightarrow> bool \<Rightarrow> string list \<Rightarrow> DB \<Rightarrow> err + (float64 \<times> totals \<times> totals)" where
  "CalculateTotals r fetchFails users db =
     (case GetAllTransactions fetchFails db of
        Inl e \<Rightarrow> Inl e
      | Inr transactions \<Rightarrow>
          (case totalsLoop r transactions (Map.empty, Map.empty) of
             (userTotals, categoryTotals) \<Rightarrow>
               Inr (balanceOf r userTotals users, categoryTotals, userTotals)))"

section \<open>ArchiveMonthlyData\<close>

text \<open>
  What the code reads from \<open>time.Now()\<close>: the Unix time, the year, the month, and the two
  formatted strings \<open>now.Format("2006-01")\<close> and \<open>now.Format("January")\<close>.
\<close>

record GoTime =
  Unix :: int
  NowYear :: int
  NowMonth :: int
  FormatYearMonth :: string
  FormatMonthName :: string

text \<open>The places where a store or transport call, or a recovered panic, can fail.\<close>

datatype site =
    ArchiveFetch | ArchiveTotals | ArchiveSave | ArchivePanic
  | FallbackTotals | FallbackFetch
  | CsvGenerate | CsvSend | CsvPanic
  | DeleteAll

definition MaxFloat64 :: float64 where
  "MaxFloat64 = Fin ((2 ^ 53 - 1) * 2 ^ 971)"

text \<open>
  The statistics loop; \<open>dayOf\<close> is \<open>time.Unix(t, 0).Format("2006-01-02")\<close>, and the keys of
  the Go map \<open>uniqueDays\<close> are a set.
\<close>

fun statsLoop ::
    "rounding \<Rightarrow> (int \<Rightarrow> string) \<Rightarrow> Transaction list \<Rightarrow>
     float64 \<times> float64 \<times> float64 \<times> string set \<Rightarrow> float64 \<times> float64 \<times> float64 \<times> string set" where
  "statsLoop r dayOf [] acc = acc"
| "statsLoop r dayOf (tx # txs) (totalSpent, highestAmount, lowestAmount, uniqueDays) =
     (let amt = fabs (Amount tx)
      in statsLoop r dayOf txs
           (fadd r totalSpent amt,
            (if flt highestAmount amt then amt else highestAmount),
            (if flt amt lowestAmount then amt else lowestAmount),
            insert (dayOf (CreatedAt tx)) uniqueDays))"

text \<open>
  \<open>ReplaceOne\<close> with the filter \<open>_id = key\<close> and upsert: the first document with that id
  is replaced; when there is none, the document is inserted.
\<close>

fun ReplaceOne :: "string \<Rightarrow> MonthlyArchive \<Rightarrow> MonthlyArchive list \<Rightarrow> MonthlyArchive list" where
  "ReplaceOne key doc [] = [doc]"
| "ReplaceOne key doc (d # ds) =
     (if ArchiveID d = key then doc # ds else d # ReplaceOne key doc ds)"

definition ArchiveMonthlyData ::
    "rounding \<Rightarrow> (int \<Rightarrow> string) \<Rightarrow> GoTime \<Rightarrow> (site \<Rightarrow> bool) \<Rightarrow> string list \<Rightarrow> DB \<Rightarrow>
     (err + MonthlyArchive) \<times> DB" where
  "ArchiveMonthlyData r dayOf now fails users db =
     (case GetAllTransactions (fails ArchiveFetch) db of
        Inl e \<Rightarrow> (Inl ArchiveFetchFailed, db)
      | Inr transactions \<Rightarrow>
          if length transactions = 0 then (Inl NoTransactions, db)
          else
            (case CalculateTotals r (fails ArchiveTotals) users db of
               Inl e \<Rightarrow> (Inl ArchiveTotalsFailed, db)
             | Inr (balance, categoryTotals, userTotals) \<Rightarrow>
                 (case statsLoop r dayOf transactions (Fin 0, Fin 0, MaxFloat64, {}) of
                    (totalSpent, highestAmount, lowestAmount, uniqueDays) \<Rightarrow>
                      let avgTransaction = fdiv r totalSpent (Fin (real (length transactions)));
                          monthID = FormatYearMonth now;
                          archive = \<lparr>ArchiveID = monthID,
                                     Year = NowYear now,
                                     Month = NowMonth now,
                                     MonthName = FormatMonthName now,
                                     TotalSpent = totalSpent,
                                     TotalTransactions = length transactions,
                                     Balance = balance,
                                     UserTotals = userTotals,
                                     CategoryTotals = categoryTotals,
                                     Transactions = transactions,
                                     AvgTransaction = avgTransaction,
                                     HighestTransaction = highestAmount,
                                     LowestTransaction = lowestAmount,
                                     DaysWithSpending = card uniqueDays,
                                     ArchivedAt = Unix now\<rparr>
                      in if fails ArchiveSave then (Inl ArchiveSaveFailed, db)
                         else (Inr archive,
                               db\<lparr>archiveCollection :=
                                    ReplaceOne monthID archive (archiveCollection db)\<rparr>))))"

definition DeleteAllTransactions :: "bool \<Rightarrow> DB \<Rightarrow> err option \<times> DB" where
  "DeleteAllTransactions fails db =
     (if fails then (Some DeleteFailed, db) else (None, db\<lparr>collection := []\<rparr>))"

section \<open>MonthlyReset (handlers package)\<close>

text \<open>
  What the bot sends to the chat and which store call it makes are recorded as a list of
  events. The text of the monthly report is not modelled beyond the archive status it
  states and the transaction count it is built from.
\<close>

datatype outgoing =
    MonthlyReport bool nat         \<comment> \<open>archive succeeded, total transactions\<close>
  | CsvDocument string             \<comment> \<open>the CSV file of the archive with this id\<close>
  | CsvExportFailedNotice          \<comment> \<open>CSV export failed. Data is still archived in database.\<close>
  | CsvGenerationFailedNotice      \<comment> \<open>CSV generation failed. Data is still archived in database.\<close>
  | CsvSendFailedNotice            \<comment> \<open>Failed to send CSV file. ... use /export command later.\<close>
  | ClearFailedWarning             \<comment> \<open>Warning: Failed to clear transactions. Manual cleanup may be needed.\<close>

datatype event = Send outgoing | CallDeleteAllTransactions

text \<open>
  \<open>safeArchiveData\<close>: a panic inside the archive call is recovered; the function then
  returns a nil error and leaves the archive pointer nil.
\<close>

definition safeArchiveData ::
    "rounding \<Rightarrow> (int \<Rightarrow> string) \<Rightarrow> GoTime \<Rightarrow> (site \<Rightarrow> bool) \<Rightarrow> string list \<Rightarrow> DB \<Rightarrow>
     MonthlyArchive option \<times> err option \<times> DB" where
  "safeArchiveData r dayOf now fails users db =
     (if fails ArchivePanic then (None, None, db)
      else (case ArchiveMonthlyData r dayOf now fails users db of
              (Inl e, db') \<Rightarrow> (None, Some e, db')
            | (Inr archiveData, db') \<Rightarrow> (Some archiveData, None, db')))"

definition safeExportCSV :: "(site \<Rightarrow> bool) \<Rightarrow> MonthlyArchive \<Rightarrow> event list" where
  "safeExportCSV fails archive =
     (if fails CsvPanic then [Send CsvExportFailedNotice]
      else if fails CsvGenerate then [Send CsvGenerationFailedNotice]
      else if fails CsvSend then [Send CsvSendFailedNotice]
      else [Send (CsvDocument (ArchiveID archive))])"

definition MonthlyReset ::
    "rounding \<Rightarrow> (int \<Rightarrow> string) \<Rightarrow> GoTime \<Rightarrow> (site \<Rightarrow> bool) \<Rightarrow> string list \<Rightarrow> DB \<Rightarrow>
     event list \<times> DB" where
  "MonthlyReset r dayOf now fails users db =
     (case safeArchiveData r dayOf now fails users db of
        (archive, archiveErr, db1) \<Rightarrow>
          (case (case archive of
                   Some a \<Rightarrow> Some (TotalTransactions a)
                 | None \<Rightarrow>
                     (case CalculateTotals r (fails FallbackTotals) users db1 of
                        Inl e \<Rightarrow> None
                      | Inr totals \<Rightarrow>
                          (case GetAllTransactions (fails FallbackFetch) db1 of
                             Inl e \<Rightarrow> Some 0
                           | Inr transactions \<Rightarrow> Some (length transactions)))) of
             None \<Rightarrow> ([], db1)
           | Some totalTransactions \<Rightarrow>
               (let report = [Send (MonthlyReport (archive \<noteq> None) totalTransactions)];
                    export = (case archive of
                                Some a \<Rightarrow> safeExportCSV fails a
                              | None \<Rightarrow> [])
                in (case DeleteAllTransactions (fails DeleteAll) db1 of
                      (Some e, db2) \<Rightarrow>
                        (report @ export @ [CallDeleteAllTransactions, Send ClearFailedWarning], db2)
                    | (None, db2) \<Rightarrow>
                        (report @ export @ [CallDeleteAllTransactions], db2)))))"

section \<open>Month-over-month growth\<close>

datatype cell = Percent float64 | NotAvailable

datatype metric = TotalSpentMetric | TotalTransactionsMetric | AverageTransactionMetric

fun metricValue :: "metric \<Rightarrow> MonthlyArchive \<Rightarrow> float64" where
  "metricValue TotalSpentMetric a = TotalSpent a"
| "metricValue TotalTransactionsMetric a = Fin (real (TotalTransactions a))"
| "metricValue AverageTransactionMetric a = AvgTransaction a"

text \<open>
  One growth cell of \<open>GenerateComparisonCSV\<close> (utils/csv.go): \<open>previous != 0\<close> guards the
  division.
\<close>

definition growthCell :: "rounding \<Rightarrow> float64 \<Rightarrow> float64 \<Rightarrow> cell" where
  "growthCell r current previous =
     (if \<not> feq previous (Fin 0)
      then Percent (fmul r (fdiv r (fsub r current previous) previous) (Fin 100))
      else NotAvailable)"

definition growthRow :: "rounding \<Rightarrow> metric \<Rightarrow> MonthlyArchive list \<Rightarrow> cell list" where
  "growthRow r m archives =
     map (\<lambda>i. growthCell r (metricValue m (archives ! i)) (metricValue m (archives ! (i - 1))))
       [1..<length archives]"

definition GenerateComparisonCSV_growth ::
    "rounding \<Rightarrow> MonthlyArchive list \<Rightarrow> (metric \<times> cell list) list" where
  "GenerateComparisonCSV_growth r archives =
     (if 1 < length archives
      then map (\<lambda>m. (m, growthRow r m archives))
             [TotalSpentMetric, TotalTransactionsMetric, AverageTransactionMetric]
      else [])"

text \<open>
  The month-over-month block of \<open>SendMonthlyComparison\<close>: the spending change, the
  percentage printed after it, and the change of the transaction count.
\<close>

definition SendMonthlyComparison_monthOverMonth ::
    "rounding \<Rightarrow> MonthlyArchive list \<Rightarrow> (float64 \<times> cell \<times> int) option" where
  "SendMonthlyComparison_monthOverMonth r archives =
     (if 2 \<le> length archives
      then (let current = archives ! 0;
                previous = archives ! 1;
                spendingChange = fsub r (TotalSpent current) (TotalSpent previous);
                spendingPercent = fmul r (fdiv r spendingChange (TotalSpent previous)) (Fin 100);
                transactionChange = int (TotalTransactions current) - int (TotalTransactions previous)
            in Some (spendingChange, Percent spendingPercent, transactionChange))
      else None)"

section \<open>Reporting and editing an amount (handlers and utils packages)\<close>

text \<open>
  The Go standard library functions the handlers call are parameters:
  \<open>strings.TrimSpace\<close>, \<open>strconv.ParseFloat(_, 64)\<close> (\<open>None\<close> when it returns an error) and
  \<open>strconv.Itoa\<close>.
\<close>

record Lib =
  TrimSpace :: "string \<Rightarrow> string"
  ParseFloat :: "string \<Rightarrow> float64 option"
  Itoa :: "int \<Rightarrow> string"

definition ValidateAmount :: "Lib \<Rightarrow> string \<Rightarrow> err + float64" where
  "ValidateAmount lib text =
     (case ParseFloat lib (TrimSpace lib text) of
        None \<Rightarrow> Inl InvalidFormat
      | Some amount \<Rightarrow> if fle amount (Fin 0) then Inl NotPositive else Inr amount)"

record Message =
  MessageID :: int
  Text :: string
  UserName :: string

datatype handler_site = Insert | Find | Update | SendPrompt | Delete

datatype reply =
    SaveFailedNotice                       \<comment> \<open>Failed to save transaction in DB.\<close>
  | CategoryPrompt string                  \<comment> \<open>Select a category: (keyboard for this transaction)\<close>
  | PromptUpdated string float64 string    \<comment> \<open>prompt message id, amount shown, category\<close>
  | PromptReset string                     \<comment> \<open>prompt message id, back to Select a category:\<close>

text \<open>
  \<open>InsertOne\<close> fails on a store failure and on a document whose \<open>_id\<close> is already in the
  collection.
\<close>

definition InsertTransaction :: "bool \<Rightarrow> int \<Rightarrow> Transaction \<Rightarrow> DB \<Rightarrow> err option \<times> DB" where
  "InsertTransaction fails nowUnix tx db =
     (if fails \<or> ID tx \<in> ID ` set (collection db) then (Some InsertFailed, db)
      else (None, db\<lparr>collection := collection db @ [tx\<lparr>CreatedAt := nowUnix\<rparr>]\<rparr>))"

definition FindTransaction :: "bool \<Rightarrow> string \<Rightarrow> DB \<Rightarrow> err + Transaction option" where
  "FindTransaction fails key db =
     (if fails then Inl FindFailed else Inr (find (\<lambda>t. ID t = key) (collection db)))"

fun updateOne :: "string \<Rightarrow> (Transaction \<Rightarrow> Transaction) \<Rightarrow> Transaction list \<Rightarrow> Transaction list" where
  "updateOne key f [] = []"
| "updateOne key f (t # ts) = (if ID t = key then f t # ts else t # updateOne key f ts)"

text \<open>
  \<open>UpdateTransaction\<close>: \<open>$set\<close> of the given fields on the first document with the id;
  the fields to set are a function on the document.
\<close>

definition UpdateTransaction ::
    "bool \<Rightarrow> string \<Rightarrow> (Transaction \<Rightarrow> Transaction) \<Rightarrow> DB \<Rightarrow> err option \<times> DB" where
  "UpdateTransaction fails key f db =
     (if fails then (Some UpdateFailed, db)
      else (None, db\<lparr>collection := updateOne key f (collection db)\<rparr>))"

text \<open>
  \<open>sendCategorySelection\<close>: \<open>sent\<close> is the id of the prompt message when \<open>bot.Send\<close>
  succeeds.
\<close>

definition sendCategorySelection ::
    "Lib \<Rightarrow> (handler_site \<Rightarrow> bool) \<Rightarrow> int \<Rightarrow> string \<Rightarrow> DB \<Rightarrow> reply list \<times> DB" where
  "sendCategorySelection lib fails sent transactionID db =
     (if fails SendPrompt then ([], db)
      else (let buttonMsgID = Itoa lib sent
            in (case UpdateTransaction (fails Update) transactionID
                       (\<lambda>t. t\<lparr>ButtonMessageID := buttonMsgID\<rparr>) db of
                  (e, db') \<Rightarrow> ([CategoryPrompt transactionID], db'))))"

definition handleNewTransaction ::
    "Lib \<Rightarrow> (handler_site \<Rightarrow> bool) \<Rightarrow> int \<Rightarrow> int \<Rightarrow> Message \<Rightarrow> DB \<Rightarrow> reply list \<times> DB" where
  "handleNewTransaction lib fails nowUnix sent message db =
     (case ValidateAmount lib (Text message) of
        Inl e \<Rightarrow> ([], db)
      | Inr amount \<Rightarrow>
          (let transactionID = Itoa lib (MessageID message);
               tx = \<lparr>ID = transactionID, Amount = amount, Author = UserName message,
                     Category = [], ButtonMessageID = [], ConfirmationMessageID = [],
                     CreatedAt = 0\<rparr>
           in (case InsertTransaction (fails Insert) nowUnix tx db of
                 (Some e, db') \<Rightarrow> ([SaveFailedNotice], db')
               | (None, db') \<Rightarrow> sendCategorySelection lib fails sent transactionID db')))"

definition handleEditedMessage ::
    "Lib \<Rightarrow> (handler_site \<Rightarrow> bool) \<Rightarrow> bool \<Rightarrow> Message \<Rightarrow> DB \<Rightarrow> reply list \<times> DB" where
  "handleEditedMessage lib fails authorized message db =
     (if \<not> authorized then ([], db)
      else
        (case ValidateAmount lib (Text message) of
           Inl e \<Rightarrow> ([], db)
         | Inr newAmount \<Rightarrow>
             (let transactionID = Itoa lib (MessageID message)
              in (case FindTransaction (fails Find) transactionID db of
                    Inl e \<Rightarrow> ([], db)
                  | Inr None \<Rightarrow> ([], db)
                  | Inr (Some tx) \<Rightarrow>
                      (case UpdateTransaction (fails Update) transactionID
                              (\<lambda>t. t\<lparr>Amount := newAmount\<rparr>) db of
                         (Some e, db') \<Rightarrow> ([], db')
                       | (None, db') \<Rightarrow>
                           (if ButtonMessageID tx \<noteq> []
                            then (if Category tx \<noteq> []
                                  then ([PromptUpdated (ButtonMessageID tx) (fabs newAmount)
                                           (Category tx)], db')
                                  else ([PromptReset (ButtonMessageID tx)], db'))
                            else ([], db')))))))"

section \<open>The other writers of the store, and the readers of the archives\<close>

text \<open>
  Besides the two amount handlers and MonthlyReset, three more functions write to the
  store: the category button, the delete button and the /reset command. Their effect on
  the store is modelled; the chat messages they send are left out. \<open>parts\<close> is the result
  of \<open>strings.Split(callback.Data, "_")\<close>.
\<close>

fun deleteOne :: "string \<Rightarrow> Transaction list \<Rightarrow> Transaction list" where
  "deleteOne key [] = []"
| "deleteOne key (t # ts) = (if ID t = key then ts else t # deleteOne key ts)"

definition DeleteTransaction :: "bool \<Rightarrow> string \<Rightarrow> DB \<Rightarrow> err option \<times> DB" where
  "DeleteTransaction fails key db =
     (if fails then (Some DeleteOneFailed, db)
      else (None, db\<lparr>collection := deleteOne key (collection db)\<rparr>))"

definition handleCategorySelection :: "(handler_site \<Rightarrow> bool) \<Rightarrow> string list \<Rightarrow> DB \<Rightarrow> DB" where
  "handleCategorySelection fails parts db =
     (if length parts < 3 then db
      else (let newCategory = parts ! 1;
                transactionID = parts ! 2
            in (case FindTransaction (fails Find) transactionID db of
                  Inl e \<Rightarrow> db
                | Inr None \<Rightarrow> db
                | Inr (Some tx) \<Rightarrow>
                    (case UpdateTransaction (fails Update) transactionID
                            (\<lambda>t. t\<lparr>Category := newCategory\<rparr>) db of
                       (e, db') \<Rightarrow> db'))))"

definition handleTransactionDeletion :: "(handler_site \<Rightarrow> bool) \<Rightarrow> string list \<Rightarrow> DB \<Rightarrow> DB" where
  "handleTransactionDeletion fails parts db =
     (if length parts < 2 then db
      else (let transactionID = parts ! 1
            in (case FindTransaction (fails Find) transactionID db of
                  Inl e \<Rightarrow> db
                | Inr None \<Rightarrow> db
                | Inr (Some tx) \<Rightarrow>
                    (case DeleteTransaction (fails Delete) transactionID db of
                       (e, db') \<Rightarrow> db'))))"

definition ResetDatabase :: "bool \<Rightarrow> DB \<Rightarrow> DB" where
  "ResetDatabase fails db = (case DeleteAllTransactions fails db of (e, db') \<Rightarrow> db')"

text \<open>
  The stores the bot can reach: it starts with empty collections, and every step is one of
  the six functions that write to the store, with any message, clock, fault and map
  iteration order.
\<close>

inductive reachable :: "Lib \<Rightarrow> rounding \<Rightarrow> (int \<Rightarrow> string) \<Rightarrow> DB \<Rightarrow> bool"
  for lib :: Lib and r :: rounding and dayOf :: "int \<Rightarrow> string" where
  start: "reachable lib r dayOf \<lparr>collection = [], archiveCollection = []\<rparr>"
| report: "reachable lib r dayOf db \<Longrightarrow>
     reachable lib r dayOf (snd (handleNewTransaction lib fails nowUnix sent message db))"
| edit: "reachable lib r dayOf db \<Longrightarrow>
     reachable lib r dayOf (snd (handleEditedMessage lib fails authorized message db))"
| category: "reachable lib r dayOf db \<Longrightarrow>
     reachable lib r dayOf (handleCategorySelection fails parts db)"
| delete: "reachable lib r dayOf db \<Longrightarrow>
     reachable lib r dayOf (handleTransactionDeletion fails parts db)"
| reset: "reachable lib r dayOf db \<Longrightarrow>
     reachable lib r dayOf (ResetDatabase failsReset db)"
| monthly: "reachable lib r dayOf db \<Longrightarrow>
     reachable lib r dayOf (snd (MonthlyReset r dayOf now failsMonthly users db))"




section \<open>Example ledgers\<close>

definition tx_alice_20 :: Transaction where
  "tx_alice_20 = \<lparr>ID = ''1'', Amount = Fin 20, Author = ''alice'', Category = ''Food'',
                   ButtonMessageID = ''2'', ConfirmationMessageID = [], CreatedAt = 1000\<rparr>"

definition tx_bob_m10 :: Transaction where
  "tx_bob_m10 = \<lparr>ID = ''3'', Amount = Fin (- 10), Author = ''bob'', Category = [],
                  ButtonMessageID = ''4'', ConfirmationMessageID = [], CreatedAt = 2000\<rparr>"

definition ledger2 :: DB where
  "ledger2 = \<lparr>collection = [tx_alice_20, tx_bob_m10], archiveCollection = []\<rparr>"

definition feb1_0900 :: GoTime where
  "feb1_0900 = \<lparr>Unix = 1738400400, NowYear = 2025, NowMonth = 2,
                 FormatYearMonth = ''2025-02'', FormatMonthName = ''February''\<rparr>"

definition feb1_0905 :: GoTime where
  "feb1_0905 = \<lparr>Unix = 1738400700, NowYear = 2025, NowMonth = 2,
                 FormatYearMonth = ''2025-02'', FormatMonthName = ''February''\<rparr>"



definition noFault :: "site \<Rightarrow> bool" where
  "noFault s = False"

definition storeDown :: "site \<Rightarrow> bool" where
  \<comment> \<open>every read of the live collection fails; deleting would succeed\<close>
  "storeDown s = (s = ArchiveFetch \<or> s = ArchiveTotals \<or> s = FallbackTotals \<or> s = FallbackFetch)"

text \<open>
  A library instance for the examples: of \<open>strconv.ParseFloat\<close> it fixes only the results
  for the strings "NaN" (the value NaN, no error, as Go documents) and "12.5".
\<close>

definition exampleLib :: Lib where
  "exampleLib = \<lparr>TrimSpace = (\<lambda>s. s),
                  ParseFloat = (\<lambda>s. if s = ''NaN'' then Some NaN
                                      else if s = ''12.5'' then Some (Fin 12.5) else None),
                  Itoa = (\<lambda>n. if n = 41 then ''41'' else ''42'')\<rparr>"

definition msgNaN :: Message where
  "msgNaN = \<lparr>MessageID = 41, Text = ''NaN'', UserName = ''alice''\<rparr>"

definition noHandlerFault :: "handler_site \<Rightarrow> bool" where
  "noHandlerFault s = False"

definition tx41 :: Transaction where
  "tx41 = \<lparr>ID = ''41'', Amount = Fin 12.5, Author = ''alice'', Category = ''Food'',
            ButtonMessageID = ''42'', ConfirmationMessageID = [], CreatedAt = 1000\<rparr>"









section \<open>Properties of CalculateTotals\<close>

lemma totalsLoop_users:
  "fst (totalsLoop r txs (ut, ct)) u =
     (if u \<in> Author ` set txs
      then Some (foldl (fadd r) (lookup0 ut u)
                   (map (\<lambda>tx. fabs (fdiv r (Amount tx) (Fin 2))) (filter (\<lambda>tx. Author tx = u) txs)))
      else ut u)"
proof (induction txs arbitrary: ut ct)
  case Nil
  then show ?case by simp
next
  case (Cons tx txs)
  show ?case
  proof (cases "Author tx = u")
    case True
    have "u \<notin> Author ` set txs \<Longrightarrow> filter (\<lambda>tx. Author tx = u) txs = []"
      by (auto simp: filter_empty_conv)
    with True show ?thesis
      by (simp add: Cons.IH Let_def addTo_def lookup0_def)
  next
    case False
    then show ?thesis
      by (simp add: Cons.IH Let_def addTo_def lookup0_def)
  qed
qed

lemma totalsLoop_categories:
  "snd (totalsLoop r txs (ut, ct)) c =
     (if c \<noteq> [] \<and> c \<in> Category ` set txs
      then Some (foldl (fadd r) (lookup0 ct c)
                   (map (\<lambda>tx. fabs (Amount tx)) (filter (\<lambda>tx. Category tx = c) txs)))
      else ct c)"
proof (induction txs arbitrary: ut ct)
  case Nil
  then show ?case by simp
next
  case (Cons tx txs)
  show ?case
  proof (cases "Category tx = c")
    case True
    have "c \<notin> Category ` set txs \<Longrightarrow> filter (\<lambda>tx. Category tx = c) txs = []"
      by (auto simp: filter_empty_conv)
    with True show ?thesis
      by (simp add: Cons.IH Let_def addTo_def lookup0_def)
  next
    case False
    then show ?thesis
      by (simp add: Cons.IH Let_def addTo_def lookup0_def)
  qed
qed

lemma totalsLoop_dom_users:
  "dom (fst (totalsLoop r txs (Map.empty, Map.empty))) = Author ` set txs"
  by (auto simp: dom_def totalsLoop_users)


lemma totalsLoop_dom_categories:
  "dom (snd (totalsLoop r txs (Map.empty, Map.empty))) = Category ` set txs - {[]}"
  by (auto simp: dom_def totalsLoop_categories)

lemma CalculateTotals_ok:
  "CalculateTotals r False users db =
     Inr (balanceOf r (fst (totalsLoop r (collection db) (Map.empty, Map.empty))) users,
          snd (totalsLoop r (collection db) (Map.empty, Map.empty)),
          fst (totalsLoop r (collection db) (Map.empty, Map.empty)))"
  by (simp add: CalculateTotals_def GetAllTransactions_def split: prod.splits)

lemma fabs_half:
  assumes "signSymmetric r"
  shows "fabs (fdiv r a (Fin 2)) = fdiv r (fabs a) (Fin 2)"
proof (cases a)
  case (Fin x)
  from assms have neg: "r (- y) = - r y" and pos: "0 \<le> r \<bar>y\<bar>" for y
    by (simp_all add: signSymmetric_def)
  show ?thesis
  proof (cases "0 \<le> x")
    case True
    then have "0 \<le> r (x / 2)" using pos [of "x / 2"] by simp
    with True Fin show ?thesis by simp
  next
    case False
    then have "0 \<le> r (- x / 2)" using pos [of "x / 2"] by simp
    moreover have "r (x / 2) = - r (- x / 2)" using neg [of "- x / 2"] by simp
    ultimately show ?thesis using False Fin by simp
  qed
qed simp_all

lemma pow2_pos: "0 < pow2 e"
  by (simp add: pow2_def)

lemma round_half_even_nonneg: "0 \<le> q \<Longrightarrow> 0 \<le> round_half_even q"
  by (auto simp: round_half_even_def Let_def)

lemma round64_signSymmetric: "signSymmetric round64"
proof -
  have "round64 (- x) = - round64 x" for x
    by (simp add: round64_def Let_def)
  moreover have "0 \<le> round64 \<bar>x\<bar>" for x
  proof (cases "x = 0")
    case True
    then show ?thesis by (simp add: round64_def)
  next
    case False
    have "0 \<le> \<bar>x\<bar> / pow2 (ilog2 \<bar>x\<bar> - 52)"
      using pow2_pos [of "ilog2 \<bar>x\<bar> - 52"] by simp
    then have "0 \<le> round_half_even (\<bar>x\<bar> / pow2 (ilog2 \<bar>x\<bar> - 52))"
      by (rule round_half_even_nonneg)
    then have "0 \<le> pow2 (ilog2 \<bar>x\<bar> - 52) *
                 of_int (round_half_even (\<bar>x\<bar> / pow2 (ilog2 \<bar>x\<bar> - 52)))"
      using pow2_pos [of "ilog2 \<bar>x\<bar> - 52"] by simp
    with False show ?thesis by (simp add: round64_def Let_def)
  qed
  ultimately show ?thesis by (simp add: signSymmetric_def)
qed

lemma rangeKeys_length:
  assumes "rangeKeys m users"
  shows "length users = card (dom m)"
  using assms distinct_card [of users] by (simp add: rangeKeys_def)

lemma rangeKeys_two:
  assumes "rangeKeys m users" and "dom m = {a, b}" and "a \<noteq> b"
  shows "users = [a, b] \<or> users = [b, a]"
proof -
  have len: "length users = 2"
    using rangeKeys_length [OF assms(1)] assms(2,3) by simp
  then obtain x y where xy: "users = [x, y]"
    by (cases users; cases "tl users"; auto)
  with assms have "x \<noteq> y" and "{x, y} = {a, b}"
    by (auto simp: rangeKeys_def)
  then show ?thesis using xy by (auto simp: doubleton_eq_iff)
qed

lemma round64_small:
  "round64 5 = 5" "round64 10 = 10" "round64 (- 5) = - 5" "round64 20 = 20"
  by code_simp+

lemma ledger2_totals:
  "CalculateTotals round64 False users ledger2 =
     Inr (balanceOf round64 [''alice'' \<mapsto> Fin 10, ''bob'' \<mapsto> Fin 5] users,
          [''Food'' \<mapsto> Fin 20],
          [''alice'' \<mapsto> Fin 10, ''bob'' \<mapsto> Fin 5])"
  by (simp add: CalculateTotals_def GetAllTransactions_def ledger2_def tx_alice_20_def
      tx_bob_m10_def addTo_def lookup0_def round64_small)

lemma CalculateTotals_maps:
  "\<exists>balance categoryTotals userTotals.
     CalculateTotals r False users db = Inr (balance, categoryTotals, userTotals) \<and>
     (\<forall>u. userTotals u =
        (if u \<in> Author ` set (collection db)
         then Some (foldl (fadd r) (Fin 0)
                      (map (\<lambda>tx. fabs (fdiv r (Amount tx) (Fin 2)))
                         (filter (\<lambda>tx. Author tx = u) (collection db))))
         else None)) \<and>
     (\<forall>c. categoryTotals c =
        (if c \<noteq> [] \<and> c \<in> Category ` set (collection db)
         then Some (foldl (fadd r) (Fin 0)
                      (map (\<lambda>tx. fabs (Amount tx))
                         (filter (\<lambda>tx. Category tx = c) (collection db))))
         else None))"
  by (simp add: CalculateTotals_ok totalsLoop_users totalsLoop_categories lookup0_def)

text \<open>
  C1. When the store read succeeds, CalculateTotals returns maps in which every author of a
  live transaction is mapped to the sum (accumulated from 0, in ledger order) of
  \<open>abs(amount) / 2\<close> over that author's transactions, whatever their category, and
  every non-empty category that occurs is mapped to the sum of \<open>abs(amount)\<close> over the
  transactions of that category. Transactions with no category (the empty string) feed no
  category bucket: the empty string is never a key of the category totals, and no other
  key exists in either map. (The code computes \<open>abs(amount / 2)\<close>, which is
  \<open>abs(amount) / 2\<close> under a sign-symmetric rounding.)
\<close>

theorem CalculateTotals_accumulates:
  assumes "signSymmetric r"
  shows "\<exists>balance categoryTotals userTotals.
     CalculateTotals r False users db = Inr (balance, categoryTotals, userTotals) \<and>
     (\<forall>u. userTotals u =
        (if u \<in> Author ` set (collection db)
         then Some (foldl (fadd r) (Fin 0)
                      (map (\<lambda>tx. fdiv r (fabs (Amount tx)) (Fin 2))
                         (filter (\<lambda>tx. Author tx = u) (collection db))))
         else None)) \<and>
     (\<forall>c. categoryTotals c =
        (if c \<noteq> [] \<and> c \<in> Category ` set (collection db)
         then Some (foldl (fadd r) (Fin 0)
                      (map (\<lambda>tx. fabs (Amount tx))
                         (filter (\<lambda>tx. Category tx = c) (collection db))))
         else None))"
  unfolding fabs_half [OF assms, symmetric] by (rule CalculateTotals_maps)

theorem CalculateTotals_accumulates_witness:
  "signSymmetric round64 \<and>
   (\<exists>balance categoryTotals userTotals.
     CalculateTotals round64 False [''alice'', ''bob''] ledger2 =
       Inr (balance, categoryTotals, userTotals) \<and>
     userTotals = [''alice'' \<mapsto> Fin 10, ''bob'' \<mapsto> Fin 5] \<and>
     categoryTotals = [''Food'' \<mapsto> Fin 20] \<and>
     userTotals ''bob'' =
       Some (foldl (fadd round64) (Fin 0)
               (map (\<lambda>tx. fdiv round64 (fabs (Amount tx)) (Fin 2))
                  (filter (\<lambda>tx. Author tx = ''bob'') (collection ledger2)))) \<and>
     categoryTotals [] = None)"
proof -
  from CalculateTotals_accumulates [OF round64_signSymmetric, of "[''alice'', ''bob'']" ledger2]
  obtain balance categoryTotals userTotals where
    run: "CalculateTotals round64 False [''alice'', ''bob''] ledger2 =
            Inr (balance, categoryTotals, userTotals)" and
    ut: "\<And>u. userTotals u =
        (if u \<in> Author ` set (collection ledger2)
         then Some (foldl (fadd round64) (Fin 0)
                      (map (\<lambda>tx. fdiv round64 (fabs (Amount tx)) (Fin 2))
                         (filter (\<lambda>tx. Author tx = u) (collection ledger2))))
         else None)" and
    ct: "\<And>c. categoryTotals c =
        (if c \<noteq> [] \<and> c \<in> Category ` set (collection ledger2)
         then Some (foldl (fadd round64) (Fin 0)
                      (map (\<lambda>tx. fabs (Amount tx))
                         (filter (\<lambda>tx. Category tx = c) (collection ledger2))))
         else None)"
    by blast
  from run have maps: "userTotals = [''alice'' \<mapsto> Fin 10, ''bob'' \<mapsto> Fin 5]"
    "categoryTotals = [''Food'' \<mapsto> Fin 20]"
    by (simp_all add: ledger2_totals)
  have bob: "''bob'' \<in> Author ` set (collection ledger2)"
    by (simp add: ledger2_def tx_alice_20_def tx_bob_m10_def)
  have "userTotals ''bob'' =
       Some (foldl (fadd round64) (Fin 0)
               (map (\<lambda>tx. fdiv round64 (fabs (Amount tx)) (Fin 2))
                  (filter (\<lambda>tx. Author tx = ''bob'') (collection ledger2))))"
    using ut [of "''bob''"] bob by simp
  moreover have "categoryTotals [] = None"
    using ct [of "[]"] by simp
  ultimately show ?thesis using run maps round64_signSymmetric by blast
qed

text \<open>
  C2. Let \<open>users\<close> be any order in which the user totals can be iterated. With fewer than
  two distinct authors the balance is 0. With exactly two distinct authors \<open>a\<close> and \<open>b\<close>
  the balance is the difference of their two totals, \<open>a\<close>'s minus \<open>b\<close>'s or \<open>b\<close>'s minus
  \<open>a\<close>'s according to which of them the iteration yields first.
\<close>

theorem CalculateTotals_balance:
  assumes "CalculateTotals r False users db = Inr (balance, categoryTotals, userTotals)"
    and "rangeKeys userTotals users"
  shows "(card (Author ` set (collection db)) < 2 \<longrightarrow> balance = Fin 0) \<and>
         (\<forall>a b. Author ` set (collection db) = {a, b} \<and> a \<noteq> b \<longrightarrow>
            (users = [a, b] \<and> balance = fsub r (lookup0 userTotals a) (lookup0 userTotals b)) \<or>
            (users = [b, a] \<and> balance = fsub r (lookup0 userTotals b) (lookup0 userTotals a)))"
proof -
  from assms(1) have ut: "userTotals = fst (totalsLoop r (collection db) (Map.empty, Map.empty))"
    and bal: "balance = balanceOf r userTotals users"
    by (auto simp: CalculateTotals_ok)
  have dom: "dom userTotals = Author ` set (collection db)"
    by (simp add: ut totalsLoop_dom_users)
  have few: "balance = Fin 0" if "card (Author ` set (collection db)) < 2"
    using that rangeKeys_length [OF assms(2)] by (simp add: bal balanceOf_def dom)
  have two: "(users = [a, b] \<and> balance = fsub r (lookup0 userTotals a) (lookup0 userTotals b)) \<or>
             (users = [b, a] \<and> balance = fsub r (lookup0 userTotals b) (lookup0 userTotals a))"
    if "Author ` set (collection db) = {a, b}" and "a \<noteq> b" for a b
    using rangeKeys_two [OF assms(2), of a b] that by (auto simp: bal balanceOf_def dom)
  from few two show ?thesis by blast
qed

theorem CalculateTotals_balance_witness:
  "CalculateTotals round64 False [''alice'', ''bob''] ledger2 =
     Inr (Fin 5, [''Food'' \<mapsto> Fin 20], [''alice'' \<mapsto> Fin 10, ''bob'' \<mapsto> Fin 5]) \<and>
   rangeKeys [''alice'' \<mapsto> Fin 10, ''bob'' \<mapsto> Fin 5] [''alice'', ''bob''] \<and>
   Author ` set (collection ledger2) = {''alice'', ''bob''} \<and>
   Fin 5 = fsub round64 (lookup0 [''alice'' \<mapsto> Fin 10, ''bob'' \<mapsto> Fin 5] ''alice'')
                        (lookup0 [''alice'' \<mapsto> Fin 10, ''bob'' \<mapsto> Fin 5] ''bob'')"
proof -
  have run: "CalculateTotals round64 False [''alice'', ''bob''] ledger2 =
     Inr (Fin 5, [''Food'' \<mapsto> Fin 20], [''alice'' \<mapsto> Fin 10, ''bob'' \<mapsto> Fin 5])"
    by (simp add: ledger2_totals balanceOf_def lookup0_def fsub_def round64_small)
  have keys: "rangeKeys [''alice'' \<mapsto> Fin 10, ''bob'' \<mapsto> Fin 5] [''alice'', ''bob'']"
    by (auto simp: rangeKeys_def)
  have authors: "Author ` set (collection ledger2) = {''alice'', ''bob''}"
    by (simp add: ledger2_def tx_alice_20_def tx_bob_m10_def)
  from CalculateTotals_balance [OF run keys] authors
  show ?thesis using run keys by auto
qed

text \<open>
  C9. The ledger with 20 paid by alice and -10 paid by bob has exactly two contributing
  users. Both \<open>[alice, bob]\<close> and \<open>[bob, alice]\<close> are iteration orders of the user totals;
  under the first CalculateTotals returns the balance 5, under the second -5.
\<close>

theorem CalculateTotals_balance_order_dependent:
  "rangeKeys [''alice'' \<mapsto> Fin 10, ''bob'' \<mapsto> Fin 5] [''alice'', ''bob''] \<and>
   rangeKeys [''alice'' \<mapsto> Fin 10, ''bob'' \<mapsto> Fin 5] [''bob'', ''alice''] \<and>
   CalculateTotals round64 False [''alice'', ''bob''] ledger2 =
     Inr (Fin 5, [''Food'' \<mapsto> Fin 20], [''alice'' \<mapsto> Fin 10, ''bob'' \<mapsto> Fin 5]) \<and>
   CalculateTotals round64 False [''bob'', ''alice''] ledger2 =
     Inr (Fin (- 5), [''Food'' \<mapsto> Fin 20], [''alice'' \<mapsto> Fin 10, ''bob'' \<mapsto> Fin 5])"
proof -
  have "rangeKeys [''alice'' \<mapsto> Fin 10, ''bob'' \<mapsto> Fin 5] [''alice'', ''bob'']"
    and "rangeKeys [''alice'' \<mapsto> Fin 10, ''bob'' \<mapsto> Fin 5] [''bob'', ''alice'']"
    by (auto simp: rangeKeys_def)
  moreover have "balanceOf round64 [''alice'' \<mapsto> Fin 10, ''bob'' \<mapsto> Fin 5] [''alice'', ''bob''] = Fin 5"
    by (simp add: balanceOf_def lookup0_def fsub_def round64_small)
  moreover have "balanceOf round64 [''alice'' \<mapsto> Fin 10, ''bob'' \<mapsto> Fin 5] [''bob'', ''alice''] = Fin (- 5)"
    by (simp add: balanceOf_def lookup0_def fsub_def round64_small)
  ultimately show ?thesis by (simp add: ledger2_totals)
qed

section \<open>Properties of ArchiveMonthlyData\<close>

lemma ArchiveMonthlyData_Inr:
  assumes "ArchiveMonthlyData r dayOf now fails users db = (Inr a, db')"
  shows "db' = db\<lparr>archiveCollection := ReplaceOne (FormatYearMonth now) a (archiveCollection db)\<rparr>"
    and "ArchiveID a = FormatYearMonth now"
    and "collection db \<noteq> []"
  using assms
  by (auto simp: ArchiveMonthlyData_def GetAllTransactions_def Let_def
      split: if_splits sum.splits prod.splits)

lemma ArchiveMonthlyData_fst_cong:
  assumes "collection dbx = collection db"
  shows "fst (ArchiveMonthlyData r dayOf now fails users dbx) =
         fst (ArchiveMonthlyData r dayOf now fails users db)"
  using assms
  by (auto simp: ArchiveMonthlyData_def GetAllTransactions_def CalculateTotals_def Let_def
      split: if_splits sum.splits prod.splits)

lemma ReplaceOne_twice:
  "ArchiveID d1 = k \<Longrightarrow> ReplaceOne k d2 (ReplaceOne k d1 ds) = ReplaceOne k d2 ds"
  by (induction ds) auto

lemma ReplaceOne_same:
  "ArchiveID d = k \<Longrightarrow> ReplaceOne k d (ReplaceOne k d ds) = ReplaceOne k d ds"
  by (rule ReplaceOne_twice)

lemma ReplaceOne_length:
  "length (ReplaceOne k d ds) = (if k \<in> ArchiveID ` set ds then length ds else Suc (length ds))"
  by (induction ds) auto

lemma ReplaceOne_member:
  "ArchiveID d = k \<Longrightarrow> k \<in> ArchiveID ` set (ReplaceOne k d ds)"
  by (induction ds) auto

lemma ReplaceOne_count:
  "ArchiveID d = k \<Longrightarrow>
   length (filter (\<lambda>x. ArchiveID x = k) (ReplaceOne k d ds)) =
     max 1 (length (filter (\<lambda>x. ArchiveID x = k) ds))"
  by (induction ds) auto

lemma distinct_ids_count:
  "distinct (map ArchiveID ds) \<Longrightarrow> length (filter (\<lambda>x. ArchiveID x = k) ds) \<le> 1"
proof (induction ds)
  case Nil
  then show ?case by simp
next
  case (Cons d ds)
  then have "ArchiveID d = k \<Longrightarrow> filter (\<lambda>x. ArchiveID x = k) ds = []"
    by (force simp: filter_empty_conv image_iff)
  with Cons show ?case by auto
qed

lemma ArchiveMonthlyData_succeeds:
  assumes "collection db \<noteq> []"
    and "\<not> fails ArchiveFetch" and "\<not> fails ArchiveTotals" and "\<not> fails ArchiveSave"
  shows "\<exists>a. ArchiveMonthlyData r dayOf now fails users db =
               (Inr a, db\<lparr>archiveCollection :=
                           ReplaceOne (FormatYearMonth now) a (archiveCollection db)\<rparr>)"
  using assms
  by (simp add: ArchiveMonthlyData_def GetAllTransactions_def CalculateTotals_def Let_def
      split: prod.splits)

text \<open>
  C4. With an empty live collection (and a store read that succeeds) the archive call fails
  with the error "no transactions to archive" and returns the store as it was: nothing is
  written to the archive collection.
\<close>

theorem ArchiveMonthlyData_empty:
  assumes "collection db = []" and "\<not> fails ArchiveFetch"
  shows "ArchiveMonthlyData r dayOf now fails users db = (Inl NoTransactions, db)"
  using assms by (simp add: ArchiveMonthlyData_def GetAllTransactions_def)

theorem ArchiveMonthlyData_empty_witness:
  "collection \<lparr>collection = [], archiveCollection = []\<rparr> = [] \<and>
   \<not> (\<lambda>s. False) ArchiveFetch \<and>
   ArchiveMonthlyData round64 (\<lambda>t. ''2025-01-31'')
       \<lparr>Unix = 1738368000, NowYear = 2025, NowMonth = 2,
        FormatYearMonth = ''2025-02'', FormatMonthName = ''February''\<rparr>
       (\<lambda>s. False) [] \<lparr>collection = [], archiveCollection = []\<rparr> =
     (Inl NoTransactions, \<lparr>collection = [], archiveCollection = []\<rparr>)"
  using ArchiveMonthlyData_empty [of "\<lparr>collection = [], archiveCollection = []\<rparr>" "\<lambda>s. False"
      round64 "\<lambda>t. ''2025-01-31''"
      "\<lparr>Unix = 1738368000, NowYear = 2025, NowMonth = 2,
        FormatYearMonth = ''2025-02'', FormatMonthName = ''February''\<rparr>" "[]"]
  by simp

text \<open>
  C5. Two successful archive runs in the same month (the same \<open>now.Format("2006-01")\<close>) over
  the same live data: the second run replaces the document the first one stored. The
  archive collection after both runs is the one a single run (the second) produces from the
  original store; it is no longer than after the first run, it holds as many documents
  with the month id as after the first run, and exactly one when ids were unique before.
  The live collection is untouched, and a rerun at the same clock reading with the same
  iteration order leaves the store as the first run left it.
\<close>

theorem ArchiveMonthlyData_rerun:
  assumes "ArchiveMonthlyData r dayOf now1 fails1 users1 db = (Inr a1, db1)"
    and "ArchiveMonthlyData r dayOf now2 fails2 users2 db1 = (Inr a2, db2)"
    and "FormatYearMonth now1 = FormatYearMonth now2"
  shows "db2 = snd (ArchiveMonthlyData r dayOf now2 fails2 users2 db) \<and>
         length (archiveCollection db2) = length (archiveCollection db1) \<and>
         length (filter (\<lambda>d. ArchiveID d = FormatYearMonth now2) (archiveCollection db2)) =
           length (filter (\<lambda>d. ArchiveID d = FormatYearMonth now2) (archiveCollection db1)) \<and>
         (distinct (map ArchiveID (archiveCollection db)) \<longrightarrow>
            length (filter (\<lambda>d. ArchiveID d = FormatYearMonth now2) (archiveCollection db2)) = 1) \<and>
         collection db2 = collection db \<and>
         (now2 = now1 \<and> users2 = users1 \<longrightarrow> db2 = db1)"
proof -
  let ?k = "FormatYearMonth now2"
  note r1 = ArchiveMonthlyData_Inr [OF assms(1)]
  note r2 = ArchiveMonthlyData_Inr [OF assms(2)]
  have k1: "ArchiveID a1 = ?k" using r1(2) assms(3) by simp
  have k2: "ArchiveID a2 = ?k" using r2(2) by simp
  have coll: "collection db1 = collection db" using r1(1) by simp
  have arch1: "archiveCollection db1 = ReplaceOne ?k a1 (archiveCollection db)"
    using r1(1) assms(3) by simp
  have arch2: "archiveCollection db2 = ReplaceOne ?k a2 (archiveCollection db1)"
    using r2(1) by simp
  have fst2: "fst (ArchiveMonthlyData r dayOf now2 fails2 users2 db) = Inr a2"
    using ArchiveMonthlyData_fst_cong [OF coll, of r dayOf now2 fails2 users2] assms(2) by simp
  then obtain dbs where single: "ArchiveMonthlyData r dayOf now2 fails2 users2 db = (Inr a2, dbs)"
    by (cases "ArchiveMonthlyData r dayOf now2 fails2 users2 db") auto
  have "dbs = db\<lparr>archiveCollection := ReplaceOne ?k a2 (archiveCollection db)\<rparr>"
    using ArchiveMonthlyData_Inr(1) [OF single] by simp
  moreover have "db2 = db\<lparr>archiveCollection := ReplaceOne ?k a2 (archiveCollection db)\<rparr>"
    using r2(1) r1(1) assms(3) ReplaceOne_twice [OF k1, of a2 "archiveCollection db"] by simp
  ultimately have c1: "db2 = snd (ArchiveMonthlyData r dayOf now2 fails2 users2 db)"
    using single by simp
  have mem: "?k \<in> ArchiveID ` set (archiveCollection db1)"
    unfolding arch1 by (rule ReplaceOne_member [OF k1])
  have c2: "length (archiveCollection db2) = length (archiveCollection db1)"
    unfolding arch2 using mem by (simp add: ReplaceOne_length)
  have pos: "1 \<le> length (filter (\<lambda>d. ArchiveID d = ?k) (archiveCollection db1))"
    unfolding arch1 by (simp add: ReplaceOne_count [OF k1])
  have c3: "length (filter (\<lambda>d. ArchiveID d = ?k) (archiveCollection db2)) =
            length (filter (\<lambda>d. ArchiveID d = ?k) (archiveCollection db1))"
    unfolding arch2 using pos by (simp add: ReplaceOne_count [OF k2])
  have c4: "length (filter (\<lambda>d. ArchiveID d = ?k) (archiveCollection db2)) = 1"
    if "distinct (map ArchiveID (archiveCollection db))"
    using distinct_ids_count [OF that, of ?k] c3
    unfolding arch1 by (simp add: ReplaceOne_count [OF k1])
  have c5: "collection db2 = collection db" using r2(1) coll by simp
  have c6: "db2 = db1" if "now2 = now1" and "users2 = users1"
  proof -
    have "fst (ArchiveMonthlyData r dayOf now1 fails1 users1 db) =
          fst (ArchiveMonthlyData r dayOf now2 fails2 users2 db)"
      using that assms(1) fst2
      by (auto simp: ArchiveMonthlyData_def GetAllTransactions_def CalculateTotals_def Let_def
          split: if_splits sum.splits prod.splits)
    then have "a1 = a2" using assms(1) fst2 by simp
    then show ?thesis using r1(1) r2(1) k1 assms(3)
      by (simp add: ReplaceOne_same)
  qed
  from c1 c2 c3 c4 c5 c6 show ?thesis by blast
qed

theorem ArchiveMonthlyData_rerun_witness:
  "\<exists>a1 db1 a2 db2.
     ArchiveMonthlyData round64 (\<lambda>t. ''2025-01-15'') feb1_0900 noFault [''alice'', ''bob''] ledger2
       = (Inr a1, db1) \<and>
     ArchiveMonthlyData round64 (\<lambda>t. ''2025-01-15'') feb1_0905 noFault [''bob'', ''alice''] db1
       = (Inr a2, db2) \<and>
     FormatYearMonth feb1_0900 = FormatYearMonth feb1_0905 \<and>
     db2 = snd (ArchiveMonthlyData round64 (\<lambda>t. ''2025-01-15'') feb1_0905 noFault
                  [''bob'', ''alice''] ledger2) \<and>
     length (archiveCollection db1) = 1 \<and>
     length (archiveCollection db2) = 1 \<and>
     length (filter (\<lambda>d. ArchiveID d = ''2025-02'') (archiveCollection db2)) = 1 \<and>
     collection db2 = collection ledger2"
proof -
  let ?day = "\<lambda>t::int. ''2025-01-15''"
  have ne: "collection ledger2 \<noteq> []" by (simp add: ledger2_def)
  obtain a1 where run1:
    "ArchiveMonthlyData round64 ?day feb1_0900 noFault [''alice'', ''bob''] ledger2 =
       (Inr a1, ledger2\<lparr>archiveCollection :=
                  ReplaceOne (FormatYearMonth feb1_0900) a1 (archiveCollection ledger2)\<rparr>)"
    using ArchiveMonthlyData_succeeds [where db = ledger2 and fails = noFault and r = round64
        and dayOf = ?day and now = feb1_0900 and users = "[''alice'', ''bob'']"] ne
    by (simp add: noFault_def) blast
  define db1 where
    "db1 = ledger2\<lparr>archiveCollection :=
                  ReplaceOne (FormatYearMonth feb1_0900) a1 (archiveCollection ledger2)\<rparr>"
  have ne1: "collection db1 \<noteq> []" by (simp add: db1_def ledger2_def)
  obtain a2 where run2:
    "ArchiveMonthlyData round64 ?day feb1_0905 noFault [''bob'', ''alice''] db1 =
       (Inr a2, db1\<lparr>archiveCollection :=
                  ReplaceOne (FormatYearMonth feb1_0905) a2 (archiveCollection db1)\<rparr>)"
    using ArchiveMonthlyData_succeeds [where db = db1 and fails = noFault and r = round64
        and dayOf = ?day and now = feb1_0905 and users = "[''bob'', ''alice'']"] ne1
    by (simp add: noFault_def) blast
  define db2 where
    "db2 = db1\<lparr>archiveCollection :=
                  ReplaceOne (FormatYearMonth feb1_0905) a2 (archiveCollection db1)\<rparr>"
  have same: "FormatYearMonth feb1_0900 = FormatYearMonth feb1_0905"
    by (simp add: feb1_0900_def feb1_0905_def)
  have ids: "distinct (map ArchiveID (archiveCollection ledger2))"
    by (simp add: ledger2_def)
  have len1: "length (archiveCollection db1) = 1"
    by (simp add: db1_def ledger2_def)
  have k: "FormatYearMonth feb1_0905 = ''2025-02''"
    by (simp add: feb1_0905_def)
  note rerun = ArchiveMonthlyData_rerun [OF run1 [folded db1_def] run2 [folded db2_def] same]
  have f1: "db2 = snd (ArchiveMonthlyData round64 ?day feb1_0905 noFault [''bob'', ''alice''] ledger2)"
    using rerun by blast
  have "length (archiveCollection db2) = length (archiveCollection db1)"
    using rerun by blast
  with len1 have f2: "length (archiveCollection db2) = 1" by simp
  have f3: "length (filter (\<lambda>d. ArchiveID d = ''2025-02'') (archiveCollection db2)) = 1"
    using rerun ids unfolding k by blast
  have f4: "collection db2 = collection ledger2"
    using rerun by blast
  from run1 [folded db1_def] run2 [folded db2_def] same f1 len1 f2 f3 f4
  show ?thesis by blast
qed

section \<open>Properties of MonthlyReset\<close>

lemma MonthlyReset_delete_attempted:
  assumes "\<not> fails FallbackTotals"
  shows "CallDeleteAllTransactions \<in> set (fst (MonthlyReset r dayOf now fails users db))"
    and "fails DeleteAll \<Longrightarrow>
         Send ClearFailedWarning \<in> set (fst (MonthlyReset r dayOf now fails users db))"
    and "\<not> fails DeleteAll \<Longrightarrow> collection (snd (MonthlyReset r dayOf now fails users db)) = []"
  using assms
  by (auto simp: MonthlyReset_def safeArchiveData_def DeleteAllTransactions_def
      CalculateTotals_def GetAllTransactions_def Let_def
      split: prod.splits option.splits sum.splits if_splits)

text \<open>
  C6. When the reads of the live collection fail, the archive attempt fails and the
  fallback recomputation of the totals fails too; the function then returns at once. No
  report is sent, DeleteAllTransactions is not called and the live collection is left as
  it was, although the delete itself would have succeeded.
\<close>

theorem MonthlyReset_returns_before_delete:
  "MonthlyReset r dayOf now storeDown users db = ([], db) \<and>
   CallDeleteAllTransactions \<notin> set (fst (MonthlyReset r dayOf now storeDown users db)) \<and>
   \<not> storeDown DeleteAll"
  by (simp add: MonthlyReset_def safeArchiveData_def ArchiveMonthlyData_def
      CalculateTotals_def GetAllTransactions_def storeDown_def)

section \<open>Properties of the growth rates\<close>

lemma growthCell_guard:
  "growthCell r current previous = NotAvailable \<longleftrightarrow> feq previous (Fin 0)"
  by (simp add: growthCell_def)


lemma GenerateComparisonCSV_growth_rows:
  assumes "1 < length archives"
  shows "GenerateComparisonCSV_growth r archives =
           [(TotalSpentMetric, growthRow r TotalSpentMetric archives),
            (TotalTransactionsMetric, growthRow r TotalTransactionsMetric archives),
            (AverageTransactionMetric, growthRow r AverageTransactionMetric archives)]"
  using assms by (simp add: GenerateComparisonCSV_growth_def)

text \<open>
  On a hand-built list whose second archive has total spent 0 the month-over-month line
  divides by that zero and carries +Inf, where the CSV cell is "N/A". No store the bot can
  reach holds such an archive (see the last section).
\<close>

lemma monthOverMonth_unguarded:
  "growthCell round64 (Fin 10) (Fin 0) = NotAvailable \<and>
   SendMonthlyComparison_monthOverMonth round64
       [current\<lparr>TotalSpent := Fin 10\<rparr>, previous\<lparr>TotalSpent := Fin 0\<rparr>] =
     Some (Fin 10, Percent PInf,
           int (TotalTransactions current) - int (TotalTransactions previous))"
  by (simp add: growthCell_def SendMonthlyComparison_monthOverMonth_def fsub_def Let_def
      round64_small)

section \<open>Properties of the amount handlers\<close>


lemma ValidateAmount_NaN:
  "ParseFloat lib (TrimSpace lib text) = Some NaN \<Longrightarrow> ValidateAmount lib text = Inr NaN"
  by (simp add: ValidateAmount_def fle_def)

lemma updateOne_append_new:
  "key \<notin> ID ` set xs \<Longrightarrow> ID t = key \<Longrightarrow> updateOne key f (xs @ [t]) = xs @ [f t]"
  by (induction xs) auto

lemma updateOne_absent:
  "find (\<lambda>t. ID t = key) xs = None \<Longrightarrow> updateOne key f xs = xs"
  by (induction xs) (auto split: if_splits)

lemma updateOne_find:
  assumes "find (\<lambda>t. ID t = key) xs = Some tx" and "ID (f tx) = key"
  shows "find (\<lambda>t. ID t = key) (updateOne key f xs) = Some (f tx)"
  using assms by (induction xs) (auto split: if_splits)

lemma updateOne_length: "length (updateOne key f xs) = length xs"
  by (induction xs) auto

lemma updateOne_amount_only:
  "map (\<lambda>t. t\<lparr>Amount := x\<rparr>) (updateOne key (\<lambda>t. t\<lparr>Amount := a\<rparr>) xs) =
   map (\<lambda>t. t\<lparr>Amount := x\<rparr>) xs"
  by (induction xs) auto

lemma handleNewTransaction_rejected:
  "ValidateAmount lib (Text message) = Inl e \<Longrightarrow>
   handleNewTransaction lib fails nowUnix sent message db = ([], db)"
  by (simp add: handleNewTransaction_def)

lemma handleNewTransaction_accepted:
  assumes "ValidateAmount lib (Text message) = Inr a"
    and "\<not> fails Insert" and "Itoa lib (MessageID message) \<notin> ID ` set (collection db)"
  shows "\<exists>b. collection (snd (handleNewTransaction lib fails nowUnix sent message db)) =
           collection db @
             [\<lparr>ID = Itoa lib (MessageID message), Amount = a, Author = UserName message,
               Category = [], ButtonMessageID = b, ConfirmationMessageID = [],
               CreatedAt = nowUnix\<rparr>]"
  using assms
  by (auto simp: handleNewTransaction_def InsertTransaction_def sendCategorySelection_def
      UpdateTransaction_def Let_def updateOne_append_new)

lemma handleEditedMessage_rejected:
  "ValidateAmount lib (Text message) = Inl e \<Longrightarrow>
   handleEditedMessage lib fails authorized message db = ([], db)"
  by (simp add: handleEditedMessage_def)

lemma handleEditedMessage_no_record:
  "find (\<lambda>t. ID t = Itoa lib (MessageID message)) (collection db) = None \<Longrightarrow>
   handleEditedMessage lib fails authorized message db = ([], db)"
  by (simp add: handleEditedMessage_def FindTransaction_def Let_def split: sum.splits)

lemma handleEditedMessage_frame:
  "archiveCollection (snd (handleEditedMessage lib fails authorized message db)) =
     archiveCollection db \<and>
   (snd (handleEditedMessage lib fails authorized message db) = db \<or>
    (\<exists>a. ValidateAmount lib (Text message) = Inr a \<and>
         collection (snd (handleEditedMessage lib fails authorized message db)) =
           updateOne (Itoa lib (MessageID message)) (\<lambda>t. t\<lparr>Amount := a\<rparr>) (collection db)))"
  by (auto simp: handleEditedMessage_def FindTransaction_def UpdateTransaction_def Let_def
      split: sum.splits option.splits prod.splits if_splits)

text \<open>
  C3. When \<open>strconv.ParseFloat\<close> returns NaN for the trimmed text (as it does for the text
  "NaN"), \<open>amount <= 0\<close> is false, ValidateAmount accepts the value and, the insert
  succeeding, the ledger gains one record whose amount is NaN, a value that is not
  greater than 0.
\<close>

theorem handleNewTransaction_accepts_NaN:
  assumes "ParseFloat lib (TrimSpace lib (Text message)) = Some NaN"
    and "\<not> fails Insert"
    and "Itoa lib (MessageID message) \<notin> ID ` set (collection db)"
  shows "\<exists>b. collection (snd (handleNewTransaction lib fails nowUnix sent message db)) =
           collection db @
             [\<lparr>ID = Itoa lib (MessageID message), Amount = NaN, Author = UserName message,
               Category = [], ButtonMessageID = b, ConfirmationMessageID = [],
               CreatedAt = nowUnix\<rparr>] \<and>
           \<not> flt (Fin 0) NaN"
  using handleNewTransaction_accepted [where lib = lib and message = message and a = NaN
      and fails = fails and db = db and nowUnix = nowUnix and sent = sent]
    ValidateAmount_NaN [OF assms(1)] assms(2,3)
  by simp

theorem handleNewTransaction_accepts_NaN_witness:
  "ParseFloat exampleLib (TrimSpace exampleLib (Text msgNaN)) = Some NaN \<and>
   \<not> noHandlerFault Insert \<and>
   Itoa exampleLib (MessageID msgNaN) \<notin> ID ` set (collection \<lparr>collection = [], archiveCollection = []\<rparr>) \<and>
   (\<exists>b. collection (snd (handleNewTransaction exampleLib noHandlerFault 1000 42 msgNaN
                           \<lparr>collection = [], archiveCollection = []\<rparr>)) =
           [\<lparr>ID = ''41'', Amount = NaN, Author = ''alice'',
             Category = [], ButtonMessageID = b, ConfirmationMessageID = [],
             CreatedAt = 1000\<rparr>])"
proof -
  have h1: "ParseFloat exampleLib (TrimSpace exampleLib (Text msgNaN)) = Some NaN"
    by (simp add: exampleLib_def msgNaN_def)
  have h2: "\<not> noHandlerFault Insert"
    by (simp add: noHandlerFault_def)
  have h3: "Itoa exampleLib (MessageID msgNaN) \<notin>
            ID ` set (collection \<lparr>collection = [], archiveCollection = []\<rparr>)"
    by simp
  from handleNewTransaction_accepts_NaN [where lib = exampleLib and message = msgNaN
      and fails = noHandlerFault and db = "\<lparr>collection = [], archiveCollection = []\<rparr>"
      and nowUnix = 1000 and sent = 42] h1 h2 h3
  show ?thesis by (simp add: exampleLib_def msgNaN_def)
qed

text \<open>
  C8. When \<open>strconv.ParseFloat\<close> returns NaN for the trimmed new text, the edit of a
  tracked message is not ignored: the amount of the live record is overwritten with NaN.
\<close>

theorem handleEditedMessage_accepts_NaN:
  assumes "ParseFloat lib (TrimSpace lib (Text message)) = Some NaN"
    and "authorized" and "\<not> fails Find" and "\<not> fails Update"
    and "find (\<lambda>t. ID t = Itoa lib (MessageID message)) (collection db) = Some tx"
  shows "find (\<lambda>t. ID t = Itoa lib (MessageID message))
           (collection (snd (handleEditedMessage lib fails authorized message db))) =
         Some (tx\<lparr>Amount := NaN\<rparr>)"
proof -
  have key: "ID tx = Itoa lib (MessageID message)"
    using assms(5) by (auto dest: find_Some_iff [THEN iffD1])
  have "collection (snd (handleEditedMessage lib fails authorized message db)) =
        updateOne (Itoa lib (MessageID message)) (\<lambda>t. t\<lparr>Amount := NaN\<rparr>) (collection db)"
    using assms
    by (simp add: handleEditedMessage_def ValidateAmount_NaN FindTransaction_def
        UpdateTransaction_def Let_def)
  then show ?thesis
    using updateOne_find [OF assms(5), of "\<lambda>t. t\<lparr>Amount := NaN\<rparr>"] key by simp
qed

theorem handleEditedMessage_accepts_NaN_witness:
  "ParseFloat exampleLib (TrimSpace exampleLib (Text msgNaN)) = Some NaN \<and>
   \<not> noHandlerFault Find \<and> \<not> noHandlerFault Update \<and>
   find (\<lambda>t. ID t = Itoa exampleLib (MessageID msgNaN))
     (collection \<lparr>collection = [tx41], archiveCollection = []\<rparr>) = Some tx41 \<and>
   Amount tx41 = Fin 12.5 \<and>
   find (\<lambda>t. ID t = Itoa exampleLib (MessageID msgNaN))
     (collection (snd (handleEditedMessage exampleLib noHandlerFault True msgNaN
                         \<lparr>collection = [tx41], archiveCollection = []\<rparr>))) =
     Some (tx41\<lparr>Amount := NaN\<rparr>)"
proof -
  have h1: "ParseFloat exampleLib (TrimSpace exampleLib (Text msgNaN)) = Some NaN"
    by (simp add: exampleLib_def msgNaN_def)
  have h3: "\<not> noHandlerFault Find" and h4: "\<not> noHandlerFault Update"
    by (simp_all add: noHandlerFault_def)
  have h5: "find (\<lambda>t. ID t = Itoa exampleLib (MessageID msgNaN))
              (collection \<lparr>collection = [tx41], archiveCollection = []\<rparr>) = Some tx41"
    by (simp add: exampleLib_def msgNaN_def tx41_def)
  have h6: "Amount tx41 = Fin 12.5" by (simp add: tx41_def)
  from handleEditedMessage_accepts_NaN [where lib = exampleLib and message = msgNaN
      and fails = noHandlerFault and authorized = True and tx = tx41
      and db = "\<lparr>collection = [tx41], archiveCollection = []\<rparr>"] h1 h3 h4 h5 h6
  show ?thesis by blast
qed

section \<open>User totals against total spent\<close>



















section \<open>The totals of stored archives are never zero\<close>




































end
